theory Spec2Isabelle
  imports Complex_Main
begin

section \<open>The file-watcher macro \<^verbatim>\<open>code_macro.py\<close>\<close>

text \<open>
  The macro watches one Python file and re-executes it inside the host application
  (FreeCAD) whenever it changes. This theory embeds the causal logic of
  \<^verbatim>\<open>src/code_macro.py\<close>: the reload executor
  (\<^verbatim>\<open>ThreadSafeReloader.reload_geometry_safe\<close>), the event handler with its
  debounce gate (\<^verbatim>\<open>DebugFileHandler\<close>), the polling loop
  (\<^verbatim>\<open>DebugPollingWatcher._poll\<close>) and the supervisor
  (\<^verbatim>\<open>start_debug_watcher\<close>).

  Conventions of the embedding.
  \<^item> The \<^verbatim>\<open>print\<close> calls of the source write debugging text to standard output and
    decide nothing; they are left out. So is the local \<^verbatim>\<open>poll_count\<close>, which only
    feeds a \<^verbatim>\<open>print\<close>.
  \<^item> Timestamps (\<^verbatim>\<open>time.time()\<close>, \<^verbatim>\<open>os.path.getmtime\<close>) are Python floats; the
    model takes their mathematical value as a \<open>real\<close>, and the clock reading of each
    call is an argument of the function that makes it.
  \<^item> Everything the operating system, the watchdog library or the host decides is an
    argument: whether the path exists, what reading it gives, what executing the text does.
  \<^item> Calls into the host API are recorded, in order, in the list \<open>effects\<close> of the host
    state, so that "is invoked" and "in that order" are statements about that list.
    A call into the host may raise; whether it does is an argument too, and a call
    that raises is recorded as made.
\<close>

subsection \<open>Python exceptions\<close>

text \<open>
  A raised object is either an instance of \<^verbatim>\<open>Exception\<close>, which the clause
  \<^verbatim>\<open>except Exception as e\<close> catches, or an instance of \<^verbatim>\<open>BaseException\<close> only
  (\<^verbatim>\<open>SystemExit\<close>, \<^verbatim>\<open>KeyboardInterrupt\<close>, \<^verbatim>\<open>GeneratorExit\<close>), which it does not.
  The string is \<^verbatim>\<open>str(e)\<close>.
\<close>

datatype raised = PyException string | PyBaseException string

subsection \<open>The host and the reload executor\<close>

datatype ns_value = AppModule | GuiModule | PartModule | StrValue string

type_synonym namespace = "(string \<times> ns_value) list"

text \<open>
  The calls the executor makes on its surroundings: the file is opened and read
  (line 59), \<^verbatim>\<open>exec(code, namespace)\<close> is called (line 83),
  \<^verbatim>\<open>App.ActiveDocument.recompute()\<close>, \<^verbatim>\<open>Gui.updateGui()\<close>,
  \<^verbatim>\<open>App.Console.PrintMessage\<close> and \<^verbatim>\<open>App.Console.PrintError\<close>.
\<close>

datatype effect =
    FileRead string
  | Exec string namespace
  | Recompute
  | UpdateGui
  | PrintMessage string
  | PrintError string

record host =
  ActiveDocument :: bool
  effects :: "effect list"

text \<open>
  What one invocation of the executor meets outside the macro:
  \<^verbatim>\<open>os.path.exists\<close>; \<^verbatim>\<open>open(...).read()\<close>, which gives the text or raises (an
  \<^verbatim>\<open>OSError\<close> or a \<^verbatim>\<open>UnicodeDecodeError\<close>, both instances of \<^verbatim>\<open>Exception\<close>, kept
  as their message); whether \<^verbatim>\<open>import Part\<close> succeeds; \<^verbatim>\<open>exec\<close>, which turns the
  host state into another one and may raise anything, also after it has changed the
  host; and, for each of the four calls into the host, \<open>None\<close> when the call returns
  and the object it raises when it does not.
\<close>

record env =
  path_exists :: "string \<Rightarrow> bool"
  read_text :: "string \<Rightarrow> string + string"
  part_importable :: bool
  exec_code :: "string \<Rightarrow> namespace \<Rightarrow> host \<Rightarrow> host \<times> raised option"
  recompute_raises :: "raised option"
  updateGui_raises :: "raised option"
  PrintMessage_raises :: "raised option"
  PrintError_raises :: "raised option"

definition record_effect :: "effect \<Rightarrow> host \<Rightarrow> host" where
  "record_effect e h = h\<lparr>effects := effects h @ [e]\<rparr>"

text \<open>The namespace dictionary of lines 65-80, in insertion order.\<close>

definition build_namespace :: "bool \<Rightarrow> string \<Rightarrow> namespace" where
  "build_namespace part python_file_path =
     [(''App'', AppModule), (''Gui'', GuiModule), (''FreeCAD'', AppModule),
      (''FreeCADGui'', GuiModule), (''__file__'', StrValue python_file_path),
      (''__name__'', StrValue ''__main__'')]
     @ (if part then [(''Part'', PartModule)] else [])"

text \<open>
  The two messages handed to the host console. The error message starts with the
  code point U+1F4A5, written here as its four UTF-8 bytes; both end in a line feed.
\<close>

definition success_msg :: string where
  "success_msg = ''>>> Geometry updated from file! <<<'' @ [CHR 0x0A]"

definition error_msg :: "string \<Rightarrow> string" where
  "error_msg e =
     [CHR 0xF0, CHR 0x9F, CHR 0x92, CHR 0xA5] @ '' ERROR during reload: '' @ e @ [CHR 0x0A]"

text \<open>
  The "GUI updates" block, lines 86-95, inside the \<^verbatim>\<open>try\<close> of line 52: the host
  state it leaves and the exception raised in it, if any. A call that raises ends the
  block, so the calls after it are not made.
\<close>

definition gui_updates :: "env \<Rightarrow> host \<Rightarrow> host \<times> raised option" where
  "gui_updates ev h =
     (if ActiveDocument h
      then (let h1 = record_effect Recompute h in
            case recompute_raises ev of
              Some x \<Rightarrow> (h1, Some x)
            | None \<Rightarrow>
                (let h2 = record_effect UpdateGui h1 in
                 case updateGui_raises ev of
                   Some x \<Rightarrow> (h2, Some x)
                 | None \<Rightarrow>
                     (record_effect (PrintMessage success_msg) h2, PrintMessage_raises ev)))
      else (h, None))"

text \<open>
  The body of the \<^verbatim>\<open>try\<close>, lines 53-95: the host state it leaves and the exception
  raised in it, if any. The \<^verbatim>\<open>return\<close> of line 56 leaves it without one.
\<close>

definition try_body :: "env \<Rightarrow> string \<Rightarrow> host \<Rightarrow> host \<times> raised option" where
  "try_body ev python_file_path h =
     (if \<not> path_exists ev python_file_path then (h, None)
      else
        let h1 = record_effect (FileRead python_file_path) h in
        case read_text ev python_file_path of
          Inl e \<Rightarrow> (h1, Some (PyException e))
        | Inr code \<Rightarrow>
            (let namespace = build_namespace (part_importable ev) python_file_path;
                 (h2, r) = exec_code ev code namespace (record_effect (Exec code namespace) h1)
             in (case r of
                   Some x \<Rightarrow> (h2, Some x)
                 | None \<Rightarrow> gui_updates ev h2)))"

text \<open>
  The clause \<^verbatim>\<open>except Exception as e\<close>, lines 97-102: an instance of
  \<^verbatim>\<open>Exception\<close> is reported with \<^verbatim>\<open>PrintError\<close>, and what that call raises, if
  anything, leaves the function; any other exception passes through.
\<close>

definition except_Exception :: "env \<Rightarrow> host \<times> raised option \<Rightarrow> host \<times> raised option" where
  "except_Exception ev res =
     (case res of
        (h, None) \<Rightarrow> (h, None)
      | (h, Some (PyException e)) \<Rightarrow>
          (record_effect (PrintError (error_msg e)) h, PrintError_raises ev)
      | (h, Some (PyBaseException e)) \<Rightarrow> (h, Some (PyBaseException e)))"

text \<open>
  \<^verbatim>\<open>reload_geometry_safe\<close>, lines 47-102. The result is the host state the call leaves
  and the exception that leaves the call, if one does.
\<close>

definition reload_geometry_safe :: "env \<Rightarrow> string \<Rightarrow> host \<Rightarrow> host \<times> raised option" where
  "reload_geometry_safe ev python_file_path h =
     except_Exception ev (try_body ev python_file_path h)"

subsection \<open>The watch session: objects and module globals\<close>

text \<open>
  \<^verbatim>\<open>DebugFileHandler\<close> and \<^verbatim>\<open>DebugPollingWatcher\<close> both have a field
  \<^verbatim>\<open>last_modified\<close>; the poller's is \<open>pw_last_modified\<close> here.
\<close>

record file_handler =
  python_file_path :: string
  last_modified :: real

record polling_watcher =
  file_path :: string
  pw_last_modified :: real
  running :: bool

text \<open>
  A watchdog \<^verbatim>\<open>Observer\<close>: the handler scheduled on it, if any, and whether its thread
  was started.
\<close>

record observer_obj =
  scheduled :: "file_handler option"
  started :: bool

text \<open>
  The module keeps three globals, \<^verbatim>\<open>observer\<close>, \<^verbatim>\<open>polling_thread\<close> and
  \<^verbatim>\<open>reloader\<close>, each \<^verbatim>\<open>None\<close> or a reference to an object. Assigning a global
  drops the reference to the object it held, but a started thread keeps running, so
  the objects live in a store of their own: three lists, in order of creation, and a
  global holds an index. A \<^verbatim>\<open>ThreadSafeReloader\<close> is kept as the list of the paths
  emitted on its \<^verbatim>\<open>reload_signal\<close>, oldest first.
\<close>

record session =
  observer :: "nat option"
  polling_thread :: "nat option"
  reloader :: "nat option"
  observers :: "observer_obj list"
  pollers :: "polling_watcher list"
  reloaders :: "string list list"

definition initial_session :: session where
  "initial_session =
     \<lparr>observer = None, polling_thread = None, reloader = None,
      observers = [], pollers = [], reloaders = []\<rparr>"

text \<open>\<^verbatim>\<open>request_reload\<close>, lines 40-45: one emission of the signal.\<close>

definition request_reload :: "nat \<Rightarrow> string \<Rightarrow> session \<Rightarrow> session" where
  "request_reload r p s =
     s\<lparr>reloaders := (reloaders s)[r := reloaders s ! r @ [p]]\<rparr>"

subsection \<open>The event handler and its debounce gate\<close>

definition DebugFileHandler :: "string \<Rightarrow> file_handler" where
  "DebugFileHandler p = \<lparr>python_file_path = p, last_modified = 0\<rparr>"

text \<open>
  \<^verbatim>\<open>_trigger_reload\<close>, lines 141-160; \<open>current_time\<close> is what \<^verbatim>\<open>time.time()\<close>
  returns at line 144. The source subtracts two floats and compares the rounded
  difference with 1. The stored time is 0 or an accepted clock reading, which is at
  least 1; for a clock reading between half and twice the stored time the float
  subtraction is exact, and outside that range the exact difference is negative or at
  least 1 and rounding keeps it so. The test on the exact difference below therefore
  decides as the source does.
\<close>

definition trigger_reload :: "real \<Rightarrow> file_handler \<Rightarrow> session \<Rightarrow> file_handler \<times> session" where
  "trigger_reload current_time fh s =
     (let time_diff = current_time - last_modified fh in
      if time_diff < 1 then (fh, s)
      else (fh\<lparr>last_modified := current_time\<rparr>,
            case reloader s of
              Some r \<Rightarrow> request_reload r (python_file_path fh) s
            | None \<Rightarrow> s))"

text \<open>
  A watchdog event. Every event has a type, a source path and the directory flag;
  \<^verbatim>\<open>dest_path\<close> is the destination of a move (and the empty string on the other
  events, as in watchdog 4), so the \<^verbatim>\<open>hasattr\<close> test of line 122 is true in
  \<^verbatim>\<open>on_moved\<close>.
\<close>

datatype event_type =
    EVENT_TYPE_MOVED
  | EVENT_TYPE_DELETED
  | EVENT_TYPE_CREATED
  | EVENT_TYPE_MODIFIED
  | EVENT_TYPE_CLOSED
  | EVENT_TYPE_OPENED

record fs_event =
  event_type :: event_type
  src_path :: string
  dest_path :: string
  is_directory :: bool

text \<open>\<^verbatim>\<open>_check_if_our_file_changed\<close>, lines 128-139.\<close>

definition check_if_our_file_changed ::
    "real \<Rightarrow> fs_event \<Rightarrow> file_handler \<Rightarrow> session \<Rightarrow> file_handler \<times> session" where
  "check_if_our_file_changed current_time event fh s =
     (if is_directory event then (fh, s)
      else if src_path event \<noteq> python_file_path fh then (fh, s)
      else trigger_reload current_time fh s)"

definition on_modified ::
    "real \<Rightarrow> fs_event \<Rightarrow> file_handler \<Rightarrow> session \<Rightarrow> file_handler \<times> session" where
  "on_modified current_time event fh s = check_if_our_file_changed current_time event fh s"

text \<open>\<^verbatim>\<open>on_moved\<close>, lines 119-126.\<close>

definition on_moved ::
    "real \<Rightarrow> fs_event \<Rightarrow> file_handler \<Rightarrow> session \<Rightarrow> file_handler \<times> session" where
  "on_moved current_time event fh s =
     (if dest_path event = python_file_path fh then trigger_reload current_time fh s
      else (fh, s))"

text \<open>
  The dispatch of watchdog's \<^verbatim>\<open>FileSystemEventHandler\<close>: \<^verbatim>\<open>on_any_event\<close> (here a
  \<^verbatim>\<open>print\<close>), then the method of the event's type. The class overrides
  \<^verbatim>\<open>on_modified\<close> and \<^verbatim>\<open>on_moved\<close>; the inherited methods do nothing.
\<close>

definition dispatch ::
    "real \<Rightarrow> fs_event \<Rightarrow> file_handler \<Rightarrow> session \<Rightarrow> file_handler \<times> session" where
  "dispatch current_time event fh s =
     (case event_type event of
        EVENT_TYPE_MODIFIED \<Rightarrow> on_modified current_time event fh s
      | EVENT_TYPE_MOVED \<Rightarrow> on_moved current_time event fh s
      | _ \<Rightarrow> (fh, s))"

text \<open>
  The thread of observer \<open>i\<close> delivers one event: the handler scheduled on it
  handles the event and keeps its new state. An observer that was never started, or
  has no handler, delivers nothing.
\<close>

definition observer_event :: "nat \<Rightarrow> real \<Rightarrow> fs_event \<Rightarrow> session \<Rightarrow> session" where
  "observer_event i current_time event s =
     (if i < length (observers s) \<and> started (observers s ! i)
      then (case scheduled (observers s ! i) of
              None \<Rightarrow> s
            | Some fh \<Rightarrow>
                (case dispatch current_time event fh s of
                   (fh', s') \<Rightarrow>
                     s'\<lparr>observers :=
                          (observers s')[i := (observers s' ! i)\<lparr>scheduled := Some fh'\<rparr>]\<rparr>))
      else s)"

text \<open>
  A run of the gate: \<^verbatim>\<open>_trigger_reload\<close> called once for each change of the watched
  file, at the given clock readings, in order.
\<close>

fun trigger_reload_run ::
    "real list \<Rightarrow> file_handler \<Rightarrow> session \<Rightarrow> file_handler \<times> session" where
  "trigger_reload_run [] fh s = (fh, s)"
| "trigger_reload_run (t # ts) fh s =
     (case trigger_reload t fh s of (fh', s') \<Rightarrow> trigger_reload_run ts fh' s')"

text \<open>
  The gate as the specification words it, for comparison: the time of the last
  accepted change after a run of events, starting from \<open>l0\<close>, where an event is
  accepted when at least one second has passed since the last accepted one; and the
  number of events accepted.
\<close>

fun spec_last_accepted :: "real \<Rightarrow> real list \<Rightarrow> real" where
  "spec_last_accepted l0 [] = l0"
| "spec_last_accepted l0 (t # ts) =
     (if t - l0 \<ge> 1 then spec_last_accepted t ts else spec_last_accepted l0 ts)"

fun spec_accepted_count :: "real \<Rightarrow> real list \<Rightarrow> nat" where
  "spec_accepted_count l0 [] = 0"
| "spec_accepted_count l0 (t # ts) =
     (if t - l0 \<ge> 1 then Suc (spec_accepted_count t ts) else spec_accepted_count l0 ts)"

subsection \<open>The polling watcher\<close>

definition DebugPollingWatcher :: "string \<Rightarrow> polling_watcher" where
  "DebugPollingWatcher p = \<lparr>file_path = p, pw_last_modified = 0, running = False\<rparr>"

text \<open>
  What one pass of the loop sees of the file: \<^verbatim>\<open>os.path.exists\<close> is false; or it is
  true and \<^verbatim>\<open>os.path.getmtime\<close> returns a time; or it is true and
  \<^verbatim>\<open>os.path.getmtime\<close> raises (the file went away in between), which the
  \<^verbatim>\<open>except\<close> clause of line 214 swallows.
\<close>

datatype observation = FileMissing | Mtime real | StatRaises string

text \<open>The body of the loop, lines 187-216.\<close>

definition poll_iteration ::
    "observation \<Rightarrow> polling_watcher \<Rightarrow> session \<Rightarrow> polling_watcher \<times> session" where
  "poll_iteration ob pw s =
     (case ob of
        FileMissing \<Rightarrow> (pw, s)
      | StatRaises e \<Rightarrow> (pw, s)
      | Mtime current_modified \<Rightarrow>
          if current_modified > pw_last_modified pw
          then (pw\<lparr>pw_last_modified := current_modified\<rparr>,
                if pw_last_modified pw > 0
                then (case reloader s of
                        Some r \<Rightarrow> request_reload r (file_path pw) s
                      | None \<Rightarrow> s)
                else s)
          else (pw, s))"

text \<open>
  \<^verbatim>\<open>_poll\<close>, lines 182-218, run over the observations its passes make; the loop ends
  when \<^verbatim>\<open>running\<close> is false.
\<close>

fun poll :: "observation list \<Rightarrow> polling_watcher \<Rightarrow> session \<Rightarrow> polling_watcher \<times> session" where
  "poll [] pw s = (pw, s)"
| "poll (ob # obs) pw s =
     (if running pw
      then (case poll_iteration ob pw s of (pw', s') \<Rightarrow> poll obs pw' s')
      else (pw, s))"

text \<open>The thread of poller \<open>j\<close> makes the passes that see \<open>obs\<close>.\<close>

definition polling_thread_run :: "nat \<Rightarrow> observation list \<Rightarrow> session \<Rightarrow> session" where
  "polling_thread_run j obs s =
     (if j < length (pollers s)
      then (case poll obs (pollers s ! j) s of
              (pw', s') \<Rightarrow> s'\<lparr>pollers := (pollers s')[j := pw']\<rparr>)
      else s)"

subsection \<open>The supervisor\<close>

text \<open>
  How the watchdog branch of \<^verbatim>\<open>start_debug_watcher\<close> (lines 230-239) ends:
  everything succeeds, or \<^verbatim>\<open>Observer()\<close>, \<^verbatim>\<open>observer.schedule\<close> or
  \<^verbatim>\<open>observer.start\<close> raises an \<^verbatim>\<open>Exception\<close>.
\<close>

datatype init_outcome =
    InitOk
  | ObserverRaises string
  | ScheduleRaises string
  | StartRaises string

definition new_reloader :: "session \<Rightarrow> session" where
  "new_reloader s =
     s\<lparr>reloader := Some (length (reloaders s)), reloaders := reloaders s @ [[]]\<rparr>"

definition new_observer :: "observer_obj \<Rightarrow> session \<Rightarrow> session" where
  "new_observer ob s =
     s\<lparr>observer := Some (length (observers s)), observers := observers s @ [ob]\<rparr>"

text \<open>Lines 243-244: the poller is created, and its \<^verbatim>\<open>start\<close> sets \<^verbatim>\<open>running\<close>.\<close>

definition new_polling_watcher :: "string \<Rightarrow> session \<Rightarrow> session" where
  "new_polling_watcher p s =
     s\<lparr>polling_thread := Some (length (pollers s)),
       pollers := pollers s @ [(DebugPollingWatcher p)\<lparr>running := True\<rparr>]\<rparr>"

text \<open>
  Lines 230-239; the flag tells whether line 237 was reached. The assignment to the
  global \<^verbatim>\<open>observer\<close> at line 233 stands when a later line raises.
\<close>

definition try_watchdog :: "init_outcome \<Rightarrow> string \<Rightarrow> session \<Rightarrow> session \<times> bool" where
  "try_watchdog init p s =
     (let event_handler = DebugFileHandler p in
      case init of
        ObserverRaises e \<Rightarrow> (s, False)
      | ScheduleRaises e \<Rightarrow> (new_observer \<lparr>scheduled = None, started = False\<rparr> s, False)
      | StartRaises e \<Rightarrow>
          (new_observer \<lparr>scheduled = Some event_handler, started = False\<rparr> s, False)
      | InitOk \<Rightarrow>
          (new_observer \<lparr>scheduled = Some event_handler, started = True\<rparr> s, True))"

text \<open>
  \<^verbatim>\<open>start_debug_watcher\<close>, lines 220-246: the value returned and the session it
  leaves. \<open>WATCHDOG_AVAILABLE\<close> is the module flag set by the import at lines 16-23,
  an argument here. (When that import fails, \<^verbatim>\<open>FileSystemEventHandler\<close> is unbound
  and the class statement of line 104 raises \<^verbatim>\<open>NameError\<close> while the module loads,
  so a module that did load has the flag set; the function is embedded as written,
  for both values.)
\<close>

definition start_debug_watcher ::
    "bool \<Rightarrow> init_outcome \<Rightarrow> string \<Rightarrow> session \<Rightarrow> bool \<times> session" where
  "start_debug_watcher WATCHDOG_AVAILABLE init p s =
     (let s1 = new_reloader s;
          (s2, returned) =
             (if WATCHDOG_AVAILABLE then try_watchdog init p s1 else (s1, False))
      in if returned then (True, s2)
         else (True, new_polling_watcher p s2))"

text \<open>
  The change sources that are running: the observers whose thread was started and
  the pollers whose loop flag is set.
\<close>

definition active_sources :: "session \<Rightarrow> nat" where
  "active_sources s =
     length (filter started (observers s)) + length (filter running (pollers s))"

subsection \<open>Concrete inputs\<close>

text \<open>
  The file of the specification's example, two host states, and the surroundings of
  a reload: the file is missing; it holds \<^verbatim>\<open>x = 1\<close> and executes cleanly, with every
  host call returning; it cannot be read; its text raises a \<^verbatim>\<open>NameError\<close>; its text
  calls \<^verbatim>\<open>sys.exit(1)\<close>; and the clean file with one host call raising a
  \<^verbatim>\<open>RuntimeError\<close>.
\<close>

definition demo_path :: string where
  "demo_path = ''/tmp/doc_geometry.py''"

definition host_without_document :: host where
  "host_without_document = \<lparr>ActiveDocument = False, effects = []\<rparr>"

definition host_with_document :: host where
  "host_with_document = \<lparr>ActiveDocument = True, effects = []\<rparr>"

definition env_clean :: env where
  "env_clean =
     \<lparr>path_exists = (\<lambda>p. True), read_text = (\<lambda>p. Inr ''x = 1''),
      part_importable = True, exec_code = (\<lambda>code ns h. (h, None)),
      recompute_raises = None, updateGui_raises = None,
      PrintMessage_raises = None, PrintError_raises = None\<rparr>"

definition env_missing :: env where
  "env_missing =
     env_clean\<lparr>path_exists := (\<lambda>p. False),
               read_text := (\<lambda>p. Inl ''No such file or directory'')\<rparr>"

definition env_unreadable :: env where
  "env_unreadable = env_clean\<lparr>read_text := (\<lambda>p. Inl ''Permission denied'')\<rparr>"

definition env_broken :: env where
  "env_broken =
     env_clean\<lparr>read_text := (\<lambda>p. Inr ''x = y''), part_importable := False,
               exec_code := (\<lambda>code ns h. (h, Some (PyException ''name y is not defined'')))\<rparr>"

definition env_exits :: env where
  "env_exits =
     env_clean\<lparr>read_text := (\<lambda>p. Inr ''import sys; sys.exit(1)''),
               exec_code := (\<lambda>code ns h. (h, Some (PyBaseException ''1'')))\<rparr>"

definition env_recompute_fails :: env where
  "env_recompute_fails = env_clean\<lparr>recompute_raises := Some (PyException ''recompute failed'')\<rparr>"

definition env_updateGui_fails :: env where
  "env_updateGui_fails = env_clean\<lparr>updateGui_raises := Some (PyException ''no GUI'')\<rparr>"

definition env_PrintMessage_fails :: env where
  "env_PrintMessage_fails =
     env_clean\<lparr>PrintMessage_raises := Some (PyException ''console closed'')\<rparr>"

definition env_PrintError_fails :: env where
  "env_PrintError_fails =
     env_broken\<lparr>PrintError_raises := Some (PyException ''console closed'')\<rparr>"

text \<open>
  A directory renamed onto the watched path; the session one start leaves when the
  observer starts; and the one it leaves when \<^verbatim>\<open>Observer()\<close> raises and the poller
  takes over.
\<close>

definition dir_moved_onto_target :: fs_event where
  "dir_moved_onto_target =
     \<lparr>event_type = EVENT_TYPE_MOVED, src_path = ''/tmp/build'',
      dest_path = demo_path, is_directory = True\<rparr>"

definition watching :: session where
  "watching = snd (start_debug_watcher True InitOk demo_path initial_session)"

definition polling :: session where
  "polling =
     snd (start_debug_watcher True (ObserverRaises ''inotify instance limit reached'')
            demo_path initial_session)"

section \<open>Properties\<close>

subsection \<open>Facts about the supervisor and the gate\<close>

lemma start_debug_watcher_reloader:
  "reloader (snd (start_debug_watcher avail init p s)) = Some (length (reloaders s))"
  "reloaders (snd (start_debug_watcher avail init p s)) = reloaders s @ [[]]"
  by (simp_all add: start_debug_watcher_def try_watchdog_def new_reloader_def new_observer_def
        new_polling_watcher_def Let_def split: init_outcome.splits)

lemma start_debug_watcher_store:
  "length (reloaders (snd (start_debug_watcher avail init p s))) = Suc (length (reloaders s))"
  "active_sources (snd (start_debug_watcher avail init p s)) = Suc (active_sources s)"
  by (simp_all add: start_debug_watcher_def try_watchdog_def new_reloader_def new_observer_def
        new_polling_watcher_def active_sources_def DebugPollingWatcher_def Let_def
        split: init_outcome.splits)

lemma watching_unfold:
  "watching = \<lparr>observer = Some 0, polling_thread = None, reloader = Some 0,
      observers = [\<lparr>scheduled = Some \<lparr>python_file_path = demo_path, last_modified = 0\<rparr>,
                    started = True\<rparr>],
      pollers = [], reloaders = [[]]\<rparr>"
  by (simp add: watching_def start_debug_watcher_def Let_def try_watchdog_def new_reloader_def
        new_observer_def initial_session_def DebugFileHandler_def)

lemma polling_unfold:
  "polling = \<lparr>observer = None, polling_thread = Some 0, reloader = Some 0, observers = [],
      pollers = [\<lparr>file_path = demo_path, pw_last_modified = 0, running = True\<rparr>],
      reloaders = [[]]\<rparr>"
  by (simp add: polling_def start_debug_watcher_def try_watchdog_def new_reloader_def
        new_polling_watcher_def DebugPollingWatcher_def initial_session_def Let_def)

lemma trigger_reload_keeps:
  "reloader (snd (trigger_reload t fh s)) = reloader s"
  "length (reloaders (snd (trigger_reload t fh s))) = length (reloaders s)"
  "python_file_path (fst (trigger_reload t fh s)) = python_file_path fh"
  by (simp_all add: trigger_reload_def request_reload_def Let_def split: option.splits)

lemma trigger_reload_run_keeps:
  "trigger_reload_run ts fh s = (fh1, s1) \<Longrightarrow>
     reloader s1 = reloader s \<and> length (reloaders s1) = length (reloaders s)
     \<and> python_file_path fh1 = python_file_path fh"
proof (induction ts arbitrary: fh s)
  case Nil
  then show ?case by simp
next
  case (Cons t ts)
  obtain fh' s' where step: "trigger_reload t fh s = (fh', s')"
    by (cases "trigger_reload t fh s")
  with Cons.prems have "trigger_reload_run ts fh' s' = (fh1, s1)" by simp
  from Cons.IH [OF this] trigger_reload_keeps [of t fh s] step
  show ?case by simp
qed

text \<open>The stored time after a run is the time of the last change the specification accepts.\<close>

lemma trigger_reload_run_last_modified:
  "trigger_reload_run ts fh s = (fh1, s1) \<Longrightarrow>
     last_modified fh1 = spec_last_accepted (last_modified fh) ts"
proof (induction ts arbitrary: fh s)
  case Nil
  then show ?case by simp
next
  case (Cons t ts)
  obtain fh' s' where step: "trigger_reload t fh s = (fh', s')"
    by (cases "trigger_reload t fh s")
  with Cons.prems have run: "trigger_reload_run ts fh' s' = (fh1, s1)" by simp
  have "last_modified fh' = (if t - last_modified fh \<ge> 1 then t else last_modified fh)"
    using step by (auto simp: trigger_reload_def Let_def)
  with Cons.IH [OF run] show ?case by simp
qed

text \<open>With a reloader installed, a run emits one request for each accepted change.\<close>

lemma trigger_reload_run_queue:
  assumes "reloader s = Some r" and "r < length (reloaders s)"
    and "trigger_reload_run ts fh s = (fh1, s1)"
  shows "reloaders s1 ! r =
           reloaders s ! r
           @ replicate (spec_accepted_count (last_modified fh) ts) (python_file_path fh)"
  using assms
proof (induction ts arbitrary: fh s)
  case Nil
  then show ?case by simp
next
  case (Cons t ts)
  obtain fh' s' where step: "trigger_reload t fh s = (fh', s')"
    by (cases "trigger_reload t fh s")
  with Cons.prems have run: "trigger_reload_run ts fh' s' = (fh1, s1)" by simp
  have keep: "reloader s' = Some r" "r < length (reloaders s')"
    "python_file_path fh' = python_file_path fh"
    using trigger_reload_keeps [of t fh s] step Cons.prems by simp_all
  show ?case
  proof (cases "t - last_modified fh \<ge> 1")
    case True
    then have "fh' = fh\<lparr>last_modified := t\<rparr>"
      and "reloaders s' ! r = reloaders s ! r @ [python_file_path fh]"
      using step Cons.prems(1,2) by (auto simp: trigger_reload_def Let_def request_reload_def)
    with Cons.IH [OF keep(1,2) run] True keep(3) show ?thesis
      by (simp add: replicate_append_same)
  next
    case False
    then have "fh' = fh" and "s' = s"
      using step by (auto simp: trigger_reload_def Let_def)
    with Cons.IH [OF keep(1,2) run] False show ?thesis by simp
  qed
qed

subsection \<open>The debounce gate\<close>

text \<open>
  C1. Take the session any call of \<^verbatim>\<open>start_debug_watcher\<close> leaves, a handler, and any
  sequence of changes of the watched file, each reaching \<^verbatim>\<open>_trigger_reload\<close> at its
  clock reading. After the sequence the handler's timestamp is the time of the last
  accepted change, and the reloader created by that start has received one request
  per accepted change. A further change arriving less than one second after that
  timestamp is rejected: handler and session stay as they are, so nothing is
  reloaded. A change arriving one second or more after it is accepted: the timestamp
  becomes the current time and exactly one request, for the watched path, is appended
  to that reloader's signal.
\<close>

theorem debounce_gate:
  assumes start: "start_debug_watcher avail init p s0 = (b, s)"
    and run: "trigger_reload_run ts fh s = (fh1, s1)"
    and r: "r = length (reloaders s0)"
  shows "last_modified fh1 = spec_last_accepted (last_modified fh) ts
    \<and> reloaders s1 ! r
        = replicate (spec_accepted_count (last_modified fh) ts) (python_file_path fh)
    \<and> (t - last_modified fh1 < 1 \<longrightarrow> trigger_reload t fh1 s1 = (fh1, s1))
    \<and> (t - last_modified fh1 \<ge> 1 \<longrightarrow>
          r < length (reloaders s1) \<and>
          trigger_reload t fh1 s1 =
            (fh1\<lparr>last_modified := t\<rparr>,
             s1\<lparr>reloaders := (reloaders s1)[r := reloaders s1 ! r @ [python_file_path fh]]\<rparr>))"
proof -
  have s: "s = snd (start_debug_watcher avail init p s0)" using start by simp
  have rs: "reloader s = Some r" "r < length (reloaders s)" "reloaders s ! r = []"
    using start_debug_watcher_reloader [of avail init p s0] r s by (simp_all add: nth_append)
  from trigger_reload_run_keeps [OF run] rs
  have keep: "reloader s1 = Some r" "r < length (reloaders s1)"
    "python_file_path fh1 = python_file_path fh"
    by simp_all
  have stamp: "last_modified fh1 = spec_last_accepted (last_modified fh) ts"
    by (rule trigger_reload_run_last_modified [OF run])
  have queue: "reloaders s1 ! r
      = replicate (spec_accepted_count (last_modified fh) ts) (python_file_path fh)"
    using trigger_reload_run_queue [OF rs(1,2) run] rs(3) by simp
  have reject: "t - last_modified fh1 < 1 \<longrightarrow> trigger_reload t fh1 s1 = (fh1, s1)"
    by (simp add: trigger_reload_def Let_def)
  have accept: "t - last_modified fh1 \<ge> 1 \<longrightarrow>
          r < length (reloaders s1) \<and>
          trigger_reload t fh1 s1 =
            (fh1\<lparr>last_modified := t\<rparr>,
             s1\<lparr>reloaders := (reloaders s1)[r := reloaders s1 ! r @ [python_file_path fh]]\<rparr>)"
    using keep by (simp add: trigger_reload_def Let_def request_reload_def)
  from stamp queue reject accept show ?thesis by blast
qed

text \<open>
  The example of the specification, on a clock that reads 100 at the first save:
  saves at 100 and 100.3 give one request, and a third save at 101.5 is accepted and
  gives the second.
\<close>

theorem debounce_gate_witness:
  "start_debug_watcher True InitOk demo_path initial_session = (True, watching)
   \<and> trigger_reload_run [100, 1003 / 10] (DebugFileHandler demo_path) watching
       = ((DebugFileHandler demo_path)\<lparr>last_modified := 100\<rparr>,
          request_reload 0 demo_path watching)
   \<and> 0 = length (reloaders initial_session)
   \<and> spec_last_accepted 0 [100, 1003 / 10] = 100
   \<and> reloaders (request_reload 0 demo_path watching) ! 0 = [demo_path]
   \<and> trigger_reload (203 / 2) ((DebugFileHandler demo_path)\<lparr>last_modified := 100\<rparr>)
         (request_reload 0 demo_path watching)
       = ((DebugFileHandler demo_path)\<lparr>last_modified := 203 / 2\<rparr>,
          (request_reload 0 demo_path watching)\<lparr>reloaders := [[demo_path, demo_path]]\<rparr>)"
proof -
  have start: "start_debug_watcher True InitOk demo_path initial_session = (True, watching)"
    by (simp add: watching_def start_debug_watcher_def Let_def split_def)
  have run: "trigger_reload_run [100, 1003 / 10] (DebugFileHandler demo_path) watching
       = ((DebugFileHandler demo_path)\<lparr>last_modified := 100\<rparr>,
          request_reload 0 demo_path watching)"
    by (simp add: watching_unfold trigger_reload_def Let_def DebugFileHandler_def
          request_reload_def)
  have r: "0 = length (reloaders initial_session)"
    by (simp add: initial_session_def)
  from debounce_gate [OF start run r, of "203 / 2"] start run r
  show ?thesis
    by (simp add: DebugFileHandler_def watching_unfold request_reload_def)
qed

subsection \<open>The reload executor\<close>

lemma reload_after_clean_exec:
  assumes "path_exists ev p"
    and "read_text ev p = Inr code"
    and "ns = build_namespace (part_importable ev) p"
    and "exec_code ev code ns (record_effect (Exec code ns) (record_effect (FileRead p) h))
           = (h2, None)"
  shows "reload_geometry_safe ev p h = except_Exception ev (gui_updates ev h2)"
  using assms by (simp add: reload_geometry_safe_def try_body_def Let_def)

text \<open>
  C2, as the source has it. The "GUI updates" block is guarded by
  \<^verbatim>\<open>if App.ActiveDocument\<close>, and it stands inside the \<^verbatim>\<open>try\<close>. The file holds
  \<^verbatim>\<open>x = 1\<close> and the execution raises nothing. With no active document, neither hook
  is invoked and nothing is reported. With one, a \<^verbatim>\<open>recompute\<close> that raises is
  followed by the error report only; an \<^verbatim>\<open>updateGui\<close> that raises leaves out the
  success message; and a \<^verbatim>\<open>PrintMessage\<close> that raises is followed by an error report.
\<close>

theorem hooks_skipped_without_document:
  "path_exists env_clean demo_path
   \<and> read_text env_clean demo_path = Inr ''x = 1''
   \<and> exec_code env_clean ''x = 1'' (build_namespace True demo_path)
         (record_effect (Exec ''x = 1'' (build_namespace True demo_path))
            (record_effect (FileRead demo_path) host_without_document))
       = (\<lparr>ActiveDocument = False,
           effects = [FileRead demo_path, Exec ''x = 1'' (build_namespace True demo_path)]\<rparr>,
          None)
   \<and> reload_geometry_safe env_clean demo_path host_without_document
       = (\<lparr>ActiveDocument = False,
           effects = [FileRead demo_path, Exec ''x = 1'' (build_namespace True demo_path)]\<rparr>,
          None)
   \<and> reload_geometry_safe env_recompute_fails demo_path host_with_document
       = (\<lparr>ActiveDocument = True,
           effects = [FileRead demo_path, Exec ''x = 1'' (build_namespace True demo_path),
                      Recompute,
                      PrintError ([CHR 0xF0, CHR 0x9F, CHR 0x92, CHR 0xA5]
                        @ '' ERROR during reload: recompute failed'' @ [CHR 0x0A])]\<rparr>,
          None)
   \<and> reload_geometry_safe env_updateGui_fails demo_path host_with_document
       = (\<lparr>ActiveDocument = True,
           effects = [FileRead demo_path, Exec ''x = 1'' (build_namespace True demo_path),
                      Recompute, UpdateGui,
                      PrintError ([CHR 0xF0, CHR 0x9F, CHR 0x92, CHR 0xA5]
                        @ '' ERROR during reload: no GUI'' @ [CHR 0x0A])]\<rparr>,
          None)
   \<and> reload_geometry_safe env_PrintMessage_fails demo_path host_with_document
       = (\<lparr>ActiveDocument = True,
           effects = [FileRead demo_path, Exec ''x = 1'' (build_namespace True demo_path),
                      Recompute, UpdateGui,
                      PrintMessage (''>>> Geometry updated from file! <<<'' @ [CHR 0x0A]),
                      PrintError ([CHR 0xF0, CHR 0x9F, CHR 0x92, CHR 0xA5]
                        @ '' ERROR during reload: console closed'' @ [CHR 0x0A])]\<rparr>,
          None)"
  by (simp add: env_clean_def env_recompute_fails_def env_updateGui_fails_def
        env_PrintMessage_fails_def host_without_document_def host_with_document_def
        reload_geometry_safe_def try_body_def except_Exception_def gui_updates_def
        record_effect_def success_msg_def error_msg_def Let_def)

text \<open>
  C2, amended. For every reload in which applying the file's content to the namespace
  succeeds, the host has an active document at that moment, and the calls of the
  recompute hook, the GUI-refresh hook and the informational channel each return, the
  executor invokes the recompute hook, then the GUI-refresh hook, then reports
  success on the informational channel with the text
  \<^verbatim>\<open>>>> Geometry updated from file! <<<\<close> and a line feed: these three calls, in this
  order, are what it adds to the host's record, and it returns normally.
\<close>

theorem reload_success_runs_hooks_in_order:
  assumes "path_exists ev p"
    and "read_text ev p = Inr code"
    and "ns = build_namespace (part_importable ev) p"
    and "exec_code ev code ns (record_effect (Exec code ns) (record_effect (FileRead p) h))
           = (h2, None)"
    and "ActiveDocument h2"
    and "recompute_raises ev = None"
    and "updateGui_raises ev = None"
    and "PrintMessage_raises ev = None"
  shows "reload_geometry_safe ev p h =
           (h2\<lparr>effects := effects h2 @
                 [Recompute, UpdateGui,
                  PrintMessage (''>>> Geometry updated from file! <<<'' @ [CHR 0x0A])]\<rparr>,
            None)"
  using assms
  by (simp add: reload_geometry_safe_def try_body_def except_Exception_def gui_updates_def
        record_effect_def success_msg_def Let_def)

theorem reload_success_runs_hooks_in_order_witness:
  "path_exists env_clean demo_path
   \<and> read_text env_clean demo_path = Inr ''x = 1''
   \<and> exec_code env_clean ''x = 1'' (build_namespace True demo_path)
         (record_effect (Exec ''x = 1'' (build_namespace True demo_path))
            (record_effect (FileRead demo_path) host_with_document))
       = (\<lparr>ActiveDocument = True,
           effects = [FileRead demo_path, Exec ''x = 1'' (build_namespace True demo_path)]\<rparr>,
          None)
   \<and> recompute_raises env_clean = None
   \<and> updateGui_raises env_clean = None
   \<and> PrintMessage_raises env_clean = None
   \<and> reload_geometry_safe env_clean demo_path host_with_document
       = (\<lparr>ActiveDocument = True,
           effects = [FileRead demo_path, Exec ''x = 1'' (build_namespace True demo_path),
                      Recompute, UpdateGui,
                      PrintMessage (''>>> Geometry updated from file! <<<'' @ [CHR 0x0A])]\<rparr>,
          None)"
proof -
  let ?ns = "build_namespace True demo_path"
  let ?h2 = "\<lparr>ActiveDocument = True, effects = [FileRead demo_path, Exec ''x = 1'' ?ns]\<rparr>"
  have a: "path_exists env_clean demo_path" by (simp add: env_clean_def)
  have b: "read_text env_clean demo_path = Inr ''x = 1''" by (simp add: env_clean_def)
  have c: "?ns = build_namespace (part_importable env_clean) demo_path"
    by (simp add: env_clean_def)
  have d: "exec_code env_clean ''x = 1'' ?ns
         (record_effect (Exec ''x = 1'' ?ns) (record_effect (FileRead demo_path) host_with_document))
       = (?h2, None)"
    by (simp add: env_clean_def record_effect_def host_with_document_def)
  have e: "ActiveDocument ?h2" by simp
  have f: "recompute_raises env_clean = None" "updateGui_raises env_clean = None"
    "PrintMessage_raises env_clean = None"
    by (simp_all add: env_clean_def)
  from reload_success_runs_hooks_in_order [OF a b c d e f] a b d f show ?thesis by simp
qed

text \<open>
  C3, as the source has it. The clause is \<^verbatim>\<open>except Exception\<close>. A file whose text
  calls \<^verbatim>\<open>sys.exit(1)\<close> raises \<^verbatim>\<open>SystemExit\<close>, which is no instance of
  \<^verbatim>\<open>Exception\<close>: nothing is reported and the exception reaches the caller. And when
  the text raises a \<^verbatim>\<open>NameError\<close> but the call of \<^verbatim>\<open>PrintError\<close> raises in its turn,
  that second exception reaches the caller.
\<close>

theorem base_exception_is_not_caught:
  "path_exists env_exits demo_path
   \<and> read_text env_exits demo_path = Inr ''import sys; sys.exit(1)''
   \<and> exec_code env_exits ''import sys; sys.exit(1)'' (build_namespace True demo_path)
         (record_effect (Exec ''import sys; sys.exit(1)'' (build_namespace True demo_path))
            (record_effect (FileRead demo_path) host_with_document))
       = (\<lparr>ActiveDocument = True,
           effects = [FileRead demo_path,
                      Exec ''import sys; sys.exit(1)'' (build_namespace True demo_path)]\<rparr>,
          Some (PyBaseException ''1''))
   \<and> reload_geometry_safe env_exits demo_path host_with_document
       = (\<lparr>ActiveDocument = True,
           effects = [FileRead demo_path,
                      Exec ''import sys; sys.exit(1)'' (build_namespace True demo_path)]\<rparr>,
          Some (PyBaseException ''1''))
   \<and> reload_geometry_safe env_PrintError_fails demo_path host_with_document
       = (\<lparr>ActiveDocument = True,
           effects = [FileRead demo_path, Exec ''x = y'' (build_namespace False demo_path),
                      PrintError ([CHR 0xF0, CHR 0x9F, CHR 0x92, CHR 0xA5]
                        @ '' ERROR during reload: name y is not defined'' @ [CHR 0x0A])]\<rparr>,
          Some (PyException ''console closed''))"
  by (simp add: env_clean_def env_exits_def env_broken_def env_PrintError_fails_def
        host_with_document_def reload_geometry_safe_def try_body_def except_Exception_def
        record_effect_def error_msg_def Let_def)

text \<open>
  C3, amended. For every reload in which reading the file, or executing its content,
  raises an instance of \<^verbatim>\<open>Exception\<close>, the executor puts the exception's text
  \<^verbatim>\<open>str(e)\<close> into its message (the code point U+1F4A5, then
  \<^verbatim>\<open> ERROR during reload: \<close>, then the text, then a line feed), reports that message
  on the host's error channel and adds nothing else to the host state the failure
  left; when that call returns, the executor returns normally, so no exception reaches
  its caller and the watch session goes on. An exception raised by the content that
  is not an instance of \<^verbatim>\<open>Exception\<close> is not caught: it reaches the caller and nothing
  is reported.
\<close>

theorem reload_failure_is_reported_not_raised:
  assumes "path_exists ev p"
  shows "(read_text ev p = Inl e \<and> PrintError_raises ev = None \<longrightarrow>
            reload_geometry_safe ev p h =
              (record_effect
                 (PrintError ([CHR 0xF0, CHR 0x9F, CHR 0x92, CHR 0xA5]
                    @ '' ERROR during reload: '' @ e @ [CHR 0x0A]))
                 (record_effect (FileRead p) h),
               None))
       \<and> (read_text ev p = Inr code
            \<and> ns = build_namespace (part_importable ev) p
            \<and> exec_code ev code ns (record_effect (Exec code ns) (record_effect (FileRead p) h))
                = (h2, Some (PyException e))
            \<and> PrintError_raises ev = None \<longrightarrow>
            reload_geometry_safe ev p h =
              (record_effect
                 (PrintError ([CHR 0xF0, CHR 0x9F, CHR 0x92, CHR 0xA5]
                    @ '' ERROR during reload: '' @ e @ [CHR 0x0A]))
                 h2,
               None))
       \<and> (read_text ev p = Inr code
            \<and> ns = build_namespace (part_importable ev) p
            \<and> exec_code ev code ns (record_effect (Exec code ns) (record_effect (FileRead p) h))
                = (h2, Some (PyBaseException e)) \<longrightarrow>
            reload_geometry_safe ev p h = (h2, Some (PyBaseException e)))"
  using assms
  by (auto simp: reload_geometry_safe_def try_body_def except_Exception_def error_msg_def
        Let_def)

theorem reload_failure_is_reported_not_raised_witness:
  "path_exists env_unreadable demo_path
   \<and> read_text env_unreadable demo_path = Inl ''Permission denied''
   \<and> PrintError_raises env_unreadable = None
   \<and> reload_geometry_safe env_unreadable demo_path host_with_document
       = (\<lparr>ActiveDocument = True,
           effects = [FileRead demo_path,
                      PrintError ([CHR 0xF0, CHR 0x9F, CHR 0x92, CHR 0xA5]
                        @ '' ERROR during reload: Permission denied'' @ [CHR 0x0A])]\<rparr>,
          None)
   \<and> path_exists env_broken demo_path
   \<and> read_text env_broken demo_path = Inr ''x = y''
   \<and> exec_code env_broken ''x = y'' (build_namespace False demo_path)
         (record_effect (Exec ''x = y'' (build_namespace False demo_path))
            (record_effect (FileRead demo_path) host_with_document))
       = (\<lparr>ActiveDocument = True,
           effects = [FileRead demo_path, Exec ''x = y'' (build_namespace False demo_path)]\<rparr>,
          Some (PyException ''name y is not defined''))
   \<and> PrintError_raises env_broken = None
   \<and> reload_geometry_safe env_broken demo_path host_with_document
       = (\<lparr>ActiveDocument = True,
           effects = [FileRead demo_path, Exec ''x = y'' (build_namespace False demo_path),
                      PrintError ([CHR 0xF0, CHR 0x9F, CHR 0x92, CHR 0xA5]
                        @ '' ERROR during reload: name y is not defined'' @ [CHR 0x0A])]\<rparr>,
          None)
   \<and> path_exists env_exits demo_path
   \<and> read_text env_exits demo_path = Inr ''import sys; sys.exit(1)''
   \<and> exec_code env_exits ''import sys; sys.exit(1)'' (build_namespace True demo_path)
         (record_effect (Exec ''import sys; sys.exit(1)'' (build_namespace True demo_path))
            (record_effect (FileRead demo_path) host_with_document))
       = (\<lparr>ActiveDocument = True,
           effects = [FileRead demo_path,
                      Exec ''import sys; sys.exit(1)'' (build_namespace True demo_path)]\<rparr>,
          Some (PyBaseException ''1''))
   \<and> reload_geometry_safe env_exits demo_path host_with_document
       = (\<lparr>ActiveDocument = True,
           effects = [FileRead demo_path,
                      Exec ''import sys; sys.exit(1)'' (build_namespace True demo_path)]\<rparr>,
          Some (PyBaseException ''1''))"
proof -
  let ?nsF = "build_namespace False demo_path"
  let ?nsT = "build_namespace True demo_path"
  let ?hb = "\<lparr>ActiveDocument = True, effects = [FileRead demo_path, Exec ''x = y'' ?nsF]\<rparr>"
  let ?hx = "\<lparr>ActiveDocument = True,
              effects = [FileRead demo_path, Exec ''import sys; sys.exit(1)'' ?nsT]\<rparr>"
  have a: "path_exists env_unreadable demo_path"
    by (simp add: env_unreadable_def env_clean_def)
  have b: "read_text env_unreadable demo_path = Inl ''Permission denied''"
    "PrintError_raises env_unreadable = None"
    by (simp_all add: env_unreadable_def env_clean_def)
  have c: "path_exists env_broken demo_path" by (simp add: env_broken_def env_clean_def)
  have d: "read_text env_broken demo_path = Inr ''x = y''"
    "?nsF = build_namespace (part_importable env_broken) demo_path"
    "exec_code env_broken ''x = y'' ?nsF
         (record_effect (Exec ''x = y'' ?nsF) (record_effect (FileRead demo_path) host_with_document))
       = (?hb, Some (PyException ''name y is not defined''))"
    "PrintError_raises env_broken = None"
    by (simp_all add: env_broken_def env_clean_def record_effect_def host_with_document_def)
  have e: "path_exists env_exits demo_path" by (simp add: env_exits_def env_clean_def)
  have f: "read_text env_exits demo_path = Inr ''import sys; sys.exit(1)''"
    "?nsT = build_namespace (part_importable env_exits) demo_path"
    "exec_code env_exits ''import sys; sys.exit(1)'' ?nsT
         (record_effect (Exec ''import sys; sys.exit(1)'' ?nsT)
            (record_effect (FileRead demo_path) host_with_document))
       = (?hx, Some (PyBaseException ''1''))"
    by (simp_all add: env_exits_def env_clean_def record_effect_def host_with_document_def)
  from reload_failure_is_reported_not_raised [OF a, of "''Permission denied''" host_with_document]
       reload_failure_is_reported_not_raised
         [OF c, of "''name y is not defined''" host_with_document "''x = y''" ?nsF ?hb]
       reload_failure_is_reported_not_raised
         [OF e, of "''1''" host_with_document "''import sys; sys.exit(1)''" ?nsT ?hx]
       a b c d e f
  show ?thesis by (simp add: record_effect_def host_with_document_def)
qed

text \<open>
  C6. When the target file does not exist, the executor returns at once: the host
  state, and with it the record of everything read, executed or reported, is the one
  it was given, and no exception leaves the call.
\<close>

theorem reload_missing_file_is_noop:
  assumes "\<not> path_exists ev p"
  shows "reload_geometry_safe ev p h = (h, None)"
  using assms by (simp add: reload_geometry_safe_def try_body_def except_Exception_def)

theorem reload_missing_file_is_noop_witness:
  "\<not> path_exists env_missing demo_path
   \<and> reload_geometry_safe env_missing demo_path host_with_document = (host_with_document, None)"
  using reload_missing_file_is_noop [of env_missing demo_path host_with_document]
  by (simp add: env_missing_def)

text \<open>
  C9, as the source has it. The three calls stand inside the \<^verbatim>\<open>try\<close>, one after the
  other. The file holds \<^verbatim>\<open>x = 1\<close>, the execution raises nothing and the host has an
  active document, but \<^verbatim>\<open>recompute\<close> raises a \<^verbatim>\<open>RuntimeError\<close>: the GUI refresh and
  the success message are not performed, and the error is reported.
\<close>

theorem recompute_failure_skips_refresh_and_message:
  "path_exists env_recompute_fails demo_path
   \<and> read_text env_recompute_fails demo_path = Inr ''x = 1''
   \<and> exec_code env_recompute_fails ''x = 1'' (build_namespace True demo_path)
         (record_effect (Exec ''x = 1'' (build_namespace True demo_path))
            (record_effect (FileRead demo_path) host_with_document))
       = (\<lparr>ActiveDocument = True,
           effects = [FileRead demo_path, Exec ''x = 1'' (build_namespace True demo_path)]\<rparr>,
          None)
   \<and> reload_geometry_safe env_recompute_fails demo_path host_with_document
       = (\<lparr>ActiveDocument = True,
           effects = [FileRead demo_path, Exec ''x = 1'' (build_namespace True demo_path),
                      Recompute,
                      PrintError ([CHR 0xF0, CHR 0x9F, CHR 0x92, CHR 0xA5]
                        @ '' ERROR during reload: recompute failed'' @ [CHR 0x0A])]\<rparr>,
          None)"
  by (simp add: env_clean_def env_recompute_fails_def host_with_document_def
        reload_geometry_safe_def try_body_def except_Exception_def gui_updates_def
        record_effect_def error_msg_def Let_def)

text \<open>
  C9, amended. For every reload, after successful execution of the file's content,
  the executor keeps what the host's record held and adds its own calls behind it.
  The recompute hook, the GUI-refresh hook and the informational success message are
  all three performed, in this order, if and only if the host has an active document
  at that moment and the calls of the recompute hook and of the GUI-refresh hook
  return. When no active document exists, all three are skipped, no error is reported
  and the call returns normally; when one exists and all three calls return, the
  three calls are all the executor adds and it returns normally.
\<close>

theorem gui_updates_iff_active_document:
  assumes "path_exists ev p"
    and "read_text ev p = Inr code"
    and "ns = build_namespace (part_importable ev) p"
    and "exec_code ev code ns (record_effect (Exec code ns) (record_effect (FileRead p) h))
           = (h2, None)"
  shows "take (length (effects h2)) (effects (fst (reload_geometry_safe ev p h))) = effects h2
       \<and> ((take 3 (drop (length (effects h2)) (effects (fst (reload_geometry_safe ev p h))))
             = [Recompute, UpdateGui,
                PrintMessage (''>>> Geometry updated from file! <<<'' @ [CHR 0x0A])])
            = (ActiveDocument h2 \<and> recompute_raises ev = None \<and> updateGui_raises ev = None))
       \<and> (\<not> ActiveDocument h2 \<longrightarrow> reload_geometry_safe ev p h = (h2, None))
       \<and> (ActiveDocument h2 \<and> recompute_raises ev = None \<and> updateGui_raises ev = None
            \<and> PrintMessage_raises ev = None \<longrightarrow>
            reload_geometry_safe ev p h =
              (h2\<lparr>effects := effects h2 @
                    [Recompute, UpdateGui,
                     PrintMessage (''>>> Geometry updated from file! <<<'' @ [CHR 0x0A])]\<rparr>,
               None))"
proof -
  have eq: "reload_geometry_safe ev p h = except_Exception ev (gui_updates ev h2)"
    by (rule reload_after_clean_exec [OF assms])
  show ?thesis
    unfolding eq
    by (auto simp: except_Exception_def gui_updates_def record_effect_def success_msg_def
          Let_def split: option.splits raised.splits)
qed

theorem gui_updates_iff_active_document_witness:
  "path_exists env_clean demo_path
   \<and> read_text env_clean demo_path = Inr ''x = 1''
   \<and> exec_code env_clean ''x = 1'' (build_namespace True demo_path)
         (record_effect (Exec ''x = 1'' (build_namespace True demo_path))
            (record_effect (FileRead demo_path) host_with_document))
       = (\<lparr>ActiveDocument = True,
           effects = [FileRead demo_path, Exec ''x = 1'' (build_namespace True demo_path)]\<rparr>,
          None)
   \<and> recompute_raises env_clean = None
   \<and> updateGui_raises env_clean = None
   \<and> PrintMessage_raises env_clean = None
   \<and> reload_geometry_safe env_clean demo_path host_with_document
       = (\<lparr>ActiveDocument = True,
           effects = [FileRead demo_path, Exec ''x = 1'' (build_namespace True demo_path),
                      Recompute, UpdateGui,
                      PrintMessage (''>>> Geometry updated from file! <<<'' @ [CHR 0x0A])]\<rparr>,
          None)
   \<and> exec_code env_clean ''x = 1'' (build_namespace True demo_path)
         (record_effect (Exec ''x = 1'' (build_namespace True demo_path))
            (record_effect (FileRead demo_path) host_without_document))
       = (\<lparr>ActiveDocument = False,
           effects = [FileRead demo_path, Exec ''x = 1'' (build_namespace True demo_path)]\<rparr>,
          None)
   \<and> reload_geometry_safe env_clean demo_path host_without_document
       = (\<lparr>ActiveDocument = False,
           effects = [FileRead demo_path, Exec ''x = 1'' (build_namespace True demo_path)]\<rparr>,
          None)"
proof -
  let ?ns = "build_namespace True demo_path"
  let ?yes = "\<lparr>ActiveDocument = True, effects = [FileRead demo_path, Exec ''x = 1'' ?ns]\<rparr>"
  let ?no = "\<lparr>ActiveDocument = False, effects = [FileRead demo_path, Exec ''x = 1'' ?ns]\<rparr>"
  have a: "path_exists env_clean demo_path" by (simp add: env_clean_def)
  have b: "read_text env_clean demo_path = Inr ''x = 1''" by (simp add: env_clean_def)
  have c: "?ns = build_namespace (part_importable env_clean) demo_path"
    by (simp add: env_clean_def)
  have d: "exec_code env_clean ''x = 1'' ?ns
         (record_effect (Exec ''x = 1'' ?ns) (record_effect (FileRead demo_path) host_with_document))
       = (?yes, None)"
    by (simp add: env_clean_def record_effect_def host_with_document_def)
  have e: "exec_code env_clean ''x = 1'' ?ns
         (record_effect (Exec ''x = 1'' ?ns)
            (record_effect (FileRead demo_path) host_without_document))
       = (?no, None)"
    by (simp add: env_clean_def record_effect_def host_without_document_def)
  have f: "recompute_raises env_clean = None" "updateGui_raises env_clean = None"
    "PrintMessage_raises env_clean = None"
    by (simp_all add: env_clean_def)
  from gui_updates_iff_active_document [OF a b c d] gui_updates_iff_active_document [OF a b c e]
       a b d e f
  show ?thesis by simp
qed

subsection \<open>The polling watcher\<close>

text \<open>
  What the loop does do. The first pass of a new poller emits nothing, whatever it
  sees; a pass that sees the modification time grow above a recorded time that is
  positive records the new time and emits one request.
\<close>

lemma first_poll_iteration_emits_nothing:
  "snd (poll_iteration ob (DebugPollingWatcher p) s) = s"
  by (simp add: poll_iteration_def DebugPollingWatcher_def split: observation.splits)

lemma poll_iteration_increase_emits:
  assumes "0 < pw_last_modified pw" and "pw_last_modified pw < m" and "reloader s = Some r"
  shows "poll_iteration (Mtime m) pw s
           = (pw\<lparr>pw_last_modified := m\<rparr>, request_reload r (file_path pw) s)"
  using assms by (simp add: poll_iteration_def)

text \<open>
  C4. The source tells "no baseline yet" from "baseline recorded" by the test
  \<^verbatim>\<open>self.last_modified > 0\<close> (line 195, commented "Skip first check"), so a file whose
  modification time is the epoch is never given a baseline. With the poller started
  on such a file, the first pass sees modification time 0 and the second sees 5: the
  second pass records 5 and emits no change, although 5 is greater than the 0 seen
  before. The same two passes on a file first seen at time 3 emit the change.
\<close>

theorem poll_epoch_baseline_skips_next_change:
  "polling_thread_run 0 [Mtime 0, Mtime 5] polling =
     polling\<lparr>pollers := [\<lparr>file_path = demo_path, pw_last_modified = 5, running = True\<rparr>]\<rparr>
   \<and> reloaders (polling_thread_run 0 [Mtime 0, Mtime 5] polling) = [[]]
   \<and> reloaders (polling_thread_run 0 [Mtime 3, Mtime 5] polling) = [[demo_path]]"
  by (simp add: polling_unfold polling_thread_run_def poll_iteration_def request_reload_def)

subsection \<open>The event filter\<close>

text \<open>
  What the handler lets through: a move whose destination is the watched path, and a
  modification of the watched path that is not a directory event. Everything else
  leaves handler and session as they are.
\<close>

lemma dispatch_filter:
  "dispatch t ev fh s =
     (if event_type ev = EVENT_TYPE_MOVED \<and> dest_path ev = python_file_path fh
         \<or> event_type ev = EVENT_TYPE_MODIFIED \<and> \<not> is_directory ev
            \<and> src_path ev = python_file_path fh
      then trigger_reload t fh s
      else (fh, s))"
  by (cases "event_type ev")
     (simp_all add: dispatch_def on_moved_def on_modified_def check_if_our_file_changed_def)

text \<open>
  C5. \<^verbatim>\<open>_check_if_our_file_changed\<close> drops directory events (line 130), but
  \<^verbatim>\<open>on_moved\<close> does not look at \<^verbatim>\<open>is_directory\<close>: a directory renamed onto the
  watched path, delivered to the running observer at clock reading 100, sends a reload
  request for the watched path. The same event as a directory modification of the
  watched path sends none.
\<close>

theorem directory_move_triggers_reload:
  "is_directory dir_moved_onto_target
   \<and> reloaders (observer_event 0 100 dir_moved_onto_target watching) = [[demo_path]]
   \<and> reloaders (observer_event 0 100
        (dir_moved_onto_target\<lparr>event_type := EVENT_TYPE_MODIFIED, src_path := demo_path\<rparr>)
        watching) = [[]]"
  by (simp add: watching_unfold observer_event_def dispatch_def on_moved_def on_modified_def
        check_if_our_file_changed_def trigger_reload_def request_reload_def
        dir_moved_onto_target_def Let_def)

subsection \<open>The supervisor\<close>

text \<open>
  C7, as the source has it. \<^verbatim>\<open>start_debug_watcher\<close> tests nothing before it creates
  its objects. After one start there is one running change source and one reloader;
  a second start on that session leaves two running change sources and two
  reloaders, and when the second start falls back to polling the globals hold an
  observer and a poller at once.
\<close>

theorem second_start_adds_source_and_dispatcher:
  "active_sources watching = 1
   \<and> length (reloaders watching) = 1
   \<and> active_sources (snd (start_debug_watcher True InitOk demo_path watching)) = 2
   \<and> length (reloaders (snd (start_debug_watcher True InitOk demo_path watching))) = 2
   \<and> active_sources
        (snd (start_debug_watcher True (ObserverRaises ''failed'') demo_path watching)) = 2
   \<and> observer
        (snd (start_debug_watcher True (ObserverRaises ''failed'') demo_path watching)) = Some 0
   \<and> polling_thread
        (snd (start_debug_watcher True (ObserverRaises ''failed'') demo_path watching)) = Some 0"
  by (simp add: watching_unfold start_debug_watcher_def try_watchdog_def new_reloader_def
        new_observer_def new_polling_watcher_def active_sources_def DebugPollingWatcher_def
        DebugFileHandler_def Let_def)

text \<open>
  C7, amended. A call of start is not guarded against an active session: every call
  creates one new dispatcher, which becomes the current one, and starts exactly one
  new Change Source, leaving those already running as they are. So exactly one Change
  Source is active after the first start of a fresh module, and one more after each
  further start.
\<close>

theorem start_adds_one_source_and_dispatcher:
  "length (reloaders (snd (start_debug_watcher avail init p s))) = Suc (length (reloaders s))
   \<and> reloader (snd (start_debug_watcher avail init p s)) = Some (length (reloaders s))
   \<and> active_sources (snd (start_debug_watcher avail init p s)) = Suc (active_sources s)
   \<and> active_sources (snd (start_debug_watcher avail init p initial_session)) = 1"
proof -
  have "active_sources initial_session = 0"
    by (simp add: active_sources_def initial_session_def)
  then show ?thesis
    using start_debug_watcher_store [of avail init p]
      start_debug_watcher_reloader(1) [of avail init p s]
    by simp
qed

text \<open>
  C10. For every path, and every session, start returns True: when the observer
  starts, which leaves the polling global as it was; and when watchdog is unavailable
  or its initialisation raises, in which case a poller for the path has been created,
  set running and stored in the polling global.
\<close>

theorem start_returns_True:
  "fst (start_debug_watcher avail init p s) = True
   \<and> (\<not> avail \<or> init \<noteq> InitOk \<longrightarrow>
        polling_thread (snd (start_debug_watcher avail init p s)) = Some (length (pollers s))
        \<and> pollers (snd (start_debug_watcher avail init p s)) ! length (pollers s)
            = \<lparr>file_path = p, pw_last_modified = 0, running = True\<rparr>)
   \<and> (avail \<and> init = InitOk \<longrightarrow>
        observer (snd (start_debug_watcher avail init p s)) = Some (length (observers s))
        \<and> observers (snd (start_debug_watcher avail init p s)) ! length (observers s)
            = \<lparr>scheduled = Some \<lparr>python_file_path = p, last_modified = 0\<rparr>, started = True\<rparr>
        \<and> polling_thread (snd (start_debug_watcher avail init p s)) = polling_thread s)"
  by (cases init)
     (simp_all add: start_debug_watcher_def try_watchdog_def new_reloader_def new_observer_def
        new_polling_watcher_def DebugPollingWatcher_def DebugFileHandler_def Let_def)

theorem start_returns_True_witness:
  "fst (start_debug_watcher False InitOk demo_path initial_session) = True
   \<and> polling_thread (snd (start_debug_watcher False InitOk demo_path initial_session)) = Some 0
   \<and> fst (start_debug_watcher True (ScheduleRaises ''No such file or directory'') demo_path
            initial_session) = True
   \<and> polling_thread (snd (start_debug_watcher True (ScheduleRaises ''No such file or directory'')
            demo_path initial_session)) = Some 0
   \<and> fst (start_debug_watcher True InitOk demo_path initial_session) = True
   \<and> observer (snd (start_debug_watcher True InitOk demo_path initial_session)) = Some 0
   \<and> polling_thread (snd (start_debug_watcher True InitOk demo_path initial_session)) = None"
  using start_returns_True [of False InitOk demo_path initial_session]
        start_returns_True [of True "ScheduleRaises ''No such file or directory''" demo_path
          initial_session]
        start_returns_True [of True InitOk demo_path initial_session]
  by (simp add: initial_session_def)

end
